theory Spec2Isabelle
  imports Complex_Main
begin

section \<open>Data model of the rental rule engine\<close>

text \<open>
  A monetary amount is a Python \<open>Decimal\<close>, modelled by its rational value. Arithmetic
  in the default decimal context rounds each result to 28 significant digits, half to even:
  \<open>round_ctx\<close>. Pricing multiplies a price (a column of at most 10 digits,
  \<open>DecimalField(max_digits=10, decimal_places=2)\<close>), a day count between two dates (at
  most 7 digits) and bracket constants; those results stay below 28 digits, and pricing
  and the deposit are written with exact products. The fine calculator and the completion
  of a rental take \<open>late_days\<close>, an integer of any size, and their products and sums are
  rounded.

  A \<open>datetime.date\<close> is its proleptic Gregorian ordinal: \<open>date.min\<close> is day 1 and
  \<open>date.max\<close> (9999-12-31) is day 3652059. \<open>(e - s).days\<close> is the difference of the
  ordinals. Adding a \<open>timedelta\<close> raises \<open>OverflowError\<close> when the result leaves
  that range.
\<close>

type_synonym decimal = rat
type_synonym date = int

text \<open>\<open>ROUND_HALF_EVEN\<close> to an integer.\<close>

definition round_half_even :: "rat \<Rightarrow> int" where
  "round_half_even x =
     (let f = \<lfloor>x\<rfloor>; d = x - of_int f
      in if d < 1 / 2 then f
         else if 1 / 2 < d then f + 1
         else if even f then f else f + 1)"

text \<open>Rounding to the precision of the context: the value is scaled by powers of ten
  until its integer part has 28 digits, rounded there, and scaled back. A value that has
  at most 28 significant digits is unchanged (lemma \<open>round_ctx_exact\<close>).\<close>

function round_ctx :: "rat \<Rightarrow> rat" where
  "round_ctx x =
     (if x = 0 then 0
      else if 10 ^ 28 \<le> \<bar>x\<bar> then 10 * round_ctx (x / 10)
      else if \<bar>x\<bar> < 10 ^ 27 then round_ctx (10 * x) / 10
      else of_int (round_half_even x))"
  by pat_completeness auto
termination
proof (relation "measure (\<lambda>x. if 10 ^ 28 \<le> \<bar>x\<bar> then nat \<lfloor>\<bar>x\<bar>\<rfloor>
                              else if \<bar>x\<bar> < 10 ^ 27 \<and> x \<noteq> 0
                                   then nat \<lceil>10 ^ 27 / \<bar>x\<bar>\<rceil> + 1
                              else 0)", goal_cases)
  case 1
  show ?case by simp
next
  case (2 x)
  then have big: "(10::rat) ^ 28 \<le> \<bar>x\<bar>" by simp
  have "\<lfloor>\<bar>x / 10\<bar>\<rfloor> < \<lfloor>\<bar>x\<bar>\<rfloor>"
  proof -
    have "\<bar>x / 10\<bar> + 1 \<le> \<bar>x\<bar>" using big by simp
    then have "\<lfloor>\<bar>x / 10\<bar>\<rfloor> + 1 \<le> \<lfloor>\<bar>x\<bar>\<rfloor>"
      by (metis floor_mono floor_add_int of_int_1 floor_one add.commute)
    then show ?thesis by simp
  qed
  moreover have "0 < \<lfloor>\<bar>x\<bar>\<rfloor>" using big by (simp add: floor_less_iff not_less)
  moreover have "\<not> \<bar>x / 10\<bar> < 10 ^ 27" using big by simp
  ultimately show ?case using big by auto
next
  case (3 x)
  then have small: "x \<noteq> 0" "\<bar>x\<bar> < 10 ^ 27" by simp_all
  have nb: "\<not> 10 ^ 28 \<le> \<bar>10 * x\<bar>" using small by simp
  show ?case
  proof (cases "\<bar>10 * x\<bar> < 10 ^ 27")
    case False
    then show ?thesis using small nb by simp
  next
    case True
    define y where "y = 10 ^ 27 / \<bar>x\<bar>"
    have y10: "10 < y" using True small by (simp add: y_def field_simps)
    have "10 ^ 27 / \<bar>10 * x\<bar> = y / 10" by (simp add: y_def abs_mult)
    moreover have "\<lceil>y / 10\<rceil> < \<lceil>y\<rceil>"
    proof -
      have "of_int \<lceil>y / 10\<rceil> < y / 10 + 1" by linarith
      also have "\<dots> \<le> y" using y10 by simp
      also have "\<dots> \<le> of_int \<lceil>y\<rceil>" by simp
      finally show ?thesis by simp
    qed
    moreover have "0 < \<lceil>y\<rceil>" using y10 by (simp add: less_ceiling_iff)
    ultimately show ?thesis using small nb True by (simp add: y_def)
  qed
qed

declare round_ctx.simps [simp del]

text \<open>What a column \<open>DecimalField(max_digits=10, decimal_places=2)\<close> holds of an
  amount: the amount rounded to two decimals, half to even, as
  \<open>Decimal.quantize\<close> does in the default context.\<close>

definition two_places :: "decimal \<Rightarrow> decimal" where
  "two_places x = of_int (round_half_even (x * 100)) / 100"

definition date_min :: date where
  "date_min = 1"

definition date_max :: date where
  "date_max = 3652059"

text \<open>
  The messages of the \<open>ValueError\<close>s and of \<open>validate_rental_dates\<close> are Ukrainian
  text in the source; each distinct message is one constructor here, and the empty string
  is \<open>NoMessage\<close>. \<open>MaxDuration n\<close> is the f-string that interpolates
  \<open>max_rental_days\<close>.
\<close>

datatype message =
    NoMessage
  | CarNotAvailable
  | StartDateInPast
  | EndDateNotAfterStart
  | MaxDuration int
  | MinDuration

text \<open>\<open>WriteRefused\<close> is whatever the persistence layer raises when it refuses a
  value that does not fit its column.\<close>

datatype error = ValueError message | OverflowError | KeyError | WriteRefused

text \<open>\<open>date + timedelta(days=n)\<close>: the \<open>timedelta\<close> constructor rejects
  \<open>|n| > 999999999\<close>, the addition rejects a result outside \<open>date.min .. date.max\<close>.\<close>

definition date_add_days :: "date \<Rightarrow> int \<Rightarrow> error + date" where
  "date_add_days d n =
     (if \<bar>n\<bar> > 999999999 then Inl OverflowError
      else if d + n < date_min \<or> date_max < d + n then Inl OverflowError
      else Inr (d + n))"

text \<open>The ambient clock: \<open>date.today()\<close> and \<open>date.today().year\<close>.\<close>

record env =
  today :: date
  current_year :: int

datatype vehicle_state = Available | Rented | Maintenance | Unavailable

datatype rental_state = Pending | Active | Completed | Overdue | Cancelled

datatype payment_kind = DepositPayment | RefundPayment | AdditionalPayment | FinePayment

record car =
  car_id :: nat
  year :: int
  daily_price :: decimal
  car_status :: vehicle_state

definition is_available :: "car \<Rightarrow> bool" where
  "is_available c = (car_status c = Available)"

section \<open>Pricing strategies\<close>

datatype pricing_strategy =
    StandardPricingStrategy
  | YearBasedPricingStrategy
  | DurationBasedPricingStrategy
  | CombinedPricingStrategy

definition standard_calculate_price :: "car \<Rightarrow> date \<Rightarrow> date \<Rightarrow> decimal" where
  "standard_calculate_price c start_date end_date =
     (let days = (end_date - start_date) + 1
      in daily_price c * of_int days)"

definition year_based_calculate_price :: "env \<Rightarrow> car \<Rightarrow> date \<Rightarrow> date \<Rightarrow> decimal" where
  "year_based_calculate_price ev c start_date end_date =
     (let days = (end_date - start_date) + 1;
          age = current_year ev - year c;
          multiplier = (if age \<le> 2 then 12 / 10
                        else if age \<le> 5 then 1
                        else if age \<le> 10 then 9 / 10
                        else 8 / 10)
      in daily_price c * of_int days * multiplier)"

definition duration_based_calculate_price :: "car \<Rightarrow> date \<Rightarrow> date \<Rightarrow> decimal" where
  "duration_based_calculate_price c start_date end_date =
     (let days = (end_date - start_date) + 1;
          base_price = daily_price c * of_int days;
          discount = (if days \<ge> 30 then 15 / 100
                      else if days \<ge> 14 then 10 / 100
                      else if days \<ge> 7 then 5 / 100
                      else 0)
      in base_price * (1 - discount))"

text \<open>The two helpers of the combined strategy return a pair of the factor and a
  description for display; \<open>calculate_price\<close> drops the description, so only the
  factor is modelled.\<close>

definition calculate_year_multiplier :: "int \<Rightarrow> decimal" where
  "calculate_year_multiplier age =
     (if age \<le> 2 then 12 / 10
      else if age \<le> 5 then 1
      else if age \<le> 10 then 9 / 10
      else 8 / 10)"

definition calculate_duration_discount :: "int \<Rightarrow> decimal" where
  "calculate_duration_discount days =
     (if days \<ge> 30 then 15 / 100
      else if days \<ge> 14 then 10 / 100
      else if days \<ge> 7 then 5 / 100
      else 0)"

definition combined_calculate_price :: "env \<Rightarrow> car \<Rightarrow> date \<Rightarrow> date \<Rightarrow> decimal" where
  "combined_calculate_price ev c start_date end_date =
     (let days = (end_date - start_date) + 1;
          age = current_year ev - year c;
          year_multiplier = calculate_year_multiplier age;
          duration_discount = calculate_duration_discount days;
          base_price = daily_price c * of_int days * year_multiplier
      in base_price * (1 - duration_discount))"

fun calculate_price :: "env \<Rightarrow> pricing_strategy \<Rightarrow> car \<Rightarrow> date \<Rightarrow> date \<Rightarrow> decimal" where
  "calculate_price ev StandardPricingStrategy c s e = standard_calculate_price c s e"
| "calculate_price ev YearBasedPricingStrategy c s e = year_based_calculate_price ev c s e"
| "calculate_price ev DurationBasedPricingStrategy c s e = duration_based_calculate_price c s e"
| "calculate_price ev CombinedPricingStrategy c s e = combined_calculate_price ev c s e"

text \<open>\<open>PricingStrategyFactory\<close>: \<open>STRATEGIES.get(strategy_type, CombinedPricingStrategy)\<close>.\<close>

definition STRATEGIES :: "(string \<times> pricing_strategy) list" where
  "STRATEGIES =
     [(''standard'', StandardPricingStrategy),
      (''year_based'', YearBasedPricingStrategy),
      (''duration_based'', DurationBasedPricingStrategy),
      (''combined'', CombinedPricingStrategy)]"

definition create_strategy :: "string \<Rightarrow> pricing_strategy" where
  "create_strategy strategy_type =
     (case map_of STRATEGIES strategy_type of
        Some strategy_class \<Rightarrow> strategy_class
      | None \<Rightarrow> CombinedPricingStrategy)"

definition get_default_strategy :: pricing_strategy where
  "get_default_strategy = create_strategy ''combined''"

section \<open>Persisted records and the record store\<close>

text \<open>
  A \<open>rental\<close> value is the Python object: its \<open>car\<close> field is the related
  \<open>Car\<close> object that \<open>rental.car\<close> yields (the row itself holds the key
  \<open>car_id (car r)\<close>). The reason of a fine is an f-string around the level or the
  number of days; each of the two texts is a constructor carrying the interpolated number.
\<close>

record rental =
  rental_id :: nat
  client :: nat
  car :: car
  start_date :: date
  expected_end_date :: date
  actual_end_date :: "date option"
  deposit :: decimal
  daily_cost :: decimal
  total_cost :: decimal
  rental_status :: rental_state
  damage_level :: int
  late_days :: int

datatype fine_reason = DamageOfLevel int | LateByDays int

record fine =
  fine_rental :: nat
  reason :: fine_reason
  fine_amount :: decimal

record payment =
  payment_rental :: nat
  payment_type :: payment_kind
  amount :: decimal

record store =
  cars :: "nat \<rightharpoonup> car"
  rentals :: "rental list"
  fines :: "fine list"
  payments :: "payment list"

text \<open>
  The database settings of the project are not available, and what a database does with
  a value that does not fit its column depends on the backend and on the version of the
  framework (some refuse an amount of more than 10 digits or an integer of more than 32
  bits, some take it). The backend is therefore a parameter: which rounded amounts a
  \<open>DecimalField(max_digits=10, decimal_places=2)\<close> column takes and which numbers an
  \<open>IntegerField\<close> column takes. A write of a row with a value the backend does not take
  raises; otherwise the row holds every amount rounded to two decimals. The Python object
  that was written keeps its own, unrounded values.
\<close>

record backend =
  takes_amount :: "decimal \<Rightarrow> bool"
  takes_integer :: "int \<Rightarrow> bool"

definition car_fits :: "backend \<Rightarrow> car \<Rightarrow> bool" where
  "car_fits db c = (takes_integer db (year c) \<and> takes_amount db (two_places (daily_price c)))"

definition car_row :: "car \<Rightarrow> car" where
  "car_row c = c\<lparr>daily_price := two_places (daily_price c)\<rparr>"

definition rental_fits :: "backend \<Rightarrow> rental \<Rightarrow> bool" where
  "rental_fits db r =
     (takes_amount db (two_places (deposit r))
      \<and> takes_amount db (two_places (daily_cost r))
      \<and> takes_amount db (two_places (total_cost r))
      \<and> takes_integer db (damage_level r)
      \<and> takes_integer db (late_days r))"

definition rental_row :: "rental \<Rightarrow> rental" where
  "rental_row r =
     r\<lparr>deposit := two_places (deposit r), daily_cost := two_places (daily_cost r),
       total_cost := two_places (total_cost r)\<rparr>"

text \<open>\<open>Model.save()\<close> of an object that has a key: the row with that key is
  replaced, or inserted when there is none.\<close>

definition save_car :: "backend \<Rightarrow> car \<Rightarrow> store \<Rightarrow> error + store" where
  "save_car db c s =
     (if car_fits db c then Inr (s\<lparr>cars := (cars s)(car_id c \<mapsto> car_row c)\<rparr>)
      else Inl WriteRefused)"

definition save_rental :: "backend \<Rightarrow> rental \<Rightarrow> store \<Rightarrow> error + store" where
  "save_rental db r s =
     (if \<not> rental_fits db r then Inl WriteRefused
      else if rental_id r \<in> set (map rental_id (rentals s))
      then Inr (s\<lparr>rentals :=
                   map (\<lambda>x. if rental_id x = rental_id r then rental_row r else x) (rentals s)\<rparr>)
      else Inr (s\<lparr>rentals := rentals s @ [rental_row r]\<rparr>))"

text \<open>\<open>objects.create(...)\<close>: a row is appended; a rental gets a key no other rental
  row has, and the defaults of the fields that are not passed. The object returned holds
  the values that were passed.\<close>

definition fresh_rental_id :: "store \<Rightarrow> nat" where
  "fresh_rental_id s = Suc (fold max (map rental_id (rentals s)) 0)"

definition Rental_objects_create ::
  "backend \<Rightarrow> nat \<Rightarrow> car \<Rightarrow> date \<Rightarrow> date \<Rightarrow> decimal \<Rightarrow> decimal \<Rightarrow> decimal \<Rightarrow> rental_state
     \<Rightarrow> store \<Rightarrow> error + rental \<times> store" where
  "Rental_objects_create db cl c sd ed dep dc tc st s =
     (let r = \<lparr>rental_id = fresh_rental_id s, client = cl, car = c, start_date = sd,
                expected_end_date = ed, actual_end_date = None, deposit = dep,
                daily_cost = dc, total_cost = tc, rental_status = st,
                damage_level = 0, late_days = 0\<rparr>
      in if rental_fits db r then Inr (r, s\<lparr>rentals := rentals s @ [rental_row r]\<rparr>)
         else Inl WriteRefused)"

definition Payment_objects_create ::
  "backend \<Rightarrow> rental \<Rightarrow> payment_kind \<Rightarrow> decimal \<Rightarrow> store \<Rightarrow> error + store" where
  "Payment_objects_create db r k a s =
     (if takes_amount db (two_places a)
      then Inr (s\<lparr>payments := payments s @
                  [\<lparr>payment_rental = rental_id r, payment_type = k, amount = two_places a\<rparr>]\<rparr>)
      else Inl WriteRefused)"

definition Fine_objects_create ::
  "backend \<Rightarrow> rental \<Rightarrow> fine_reason \<Rightarrow> decimal \<Rightarrow> store \<Rightarrow> error + store" where
  "Fine_objects_create db r why a s =
     (if takes_amount db (two_places a)
      then Inr (s\<lparr>fines := fines s @
                  [\<lparr>fine_rental = rental_id r, reason = why, fine_amount = two_places a\<rparr>]\<rparr>)
      else Inl WriteRefused)"

text \<open>\<open>@transaction.atomic\<close>: the result pairs the outcome with the store as the body
  left it; when the body raised, the writes it had made are rolled back.\<close>

definition atomic :: "(store \<Rightarrow> (error + 'a) \<times> store) \<Rightarrow> store \<Rightarrow> (error + 'a) \<times> store" where
  "atomic body s =
     (case body s of
        (Inl err, _) \<Rightarrow> (Inl err, s)
      | (Inr v, s') \<Rightarrow> (Inr v, s'))"

section \<open>Fine calculation\<close>

definition DAMAGE_MULTIPLIERS :: "(int \<times> decimal) list" where
  "DAMAGE_MULTIPLIERS = [(0, 0), (1, 1 / 10), (2, 3 / 10), (3, 5 / 10)]"

definition LATE_FINE_PER_DAY :: decimal where
  "LATE_FINE_PER_DAY = 500"

text \<open>\<open>self.DAMAGE_MULTIPLIERS[damage_level]\<close> raises \<open>KeyError\<close> on a missing key.\<close>

definition calculate_damage_fine :: "rental \<Rightarrow> int \<Rightarrow> error + decimal" where
  "calculate_damage_fine r level =
     (let level = (if map_of DAMAGE_MULTIPLIERS level = None then 0 else level)
      in case map_of DAMAGE_MULTIPLIERS level of
           None \<Rightarrow> Inl KeyError
         | Some multiplier \<Rightarrow> Inr (round_ctx (deposit r * multiplier)))"

definition calculate_late_fine :: "rental \<Rightarrow> int \<Rightarrow> decimal" where
  "calculate_late_fine r days =
     (if days \<le> 0 then 0 else round_ctx (LATE_FINE_PER_DAY * of_int days))"

definition calculate_total_fines :: "rental \<Rightarrow> int \<Rightarrow> int \<Rightarrow> error + decimal" where
  "calculate_total_fines r level days =
     (case calculate_damage_fine r level of
        Inl err \<Rightarrow> Inl err
      | Inr damage_fine \<Rightarrow>
          (let late_fine = calculate_late_fine r days
           in Inr (round_ctx (damage_fine + late_fine))))"

text \<open>The difference is written exactly: for a deposit read from its column and a total
  that \<open>calculate_total_fines\<close> returned it has fewer than 28 digits whenever it is
  positive, and the maximum with 0 is 0 otherwise, rounded or not.\<close>

definition calculate_refund :: "rental \<Rightarrow> decimal \<Rightarrow> decimal" where
  "calculate_refund r total_fines =
     (let refund = deposit r - total_fines in max refund 0)"

section \<open>Rental factory\<close>

definition calculate_deposit :: "env \<Rightarrow> car \<Rightarrow> int \<Rightarrow> error + decimal" where
  "calculate_deposit ev c rental_days =
     (let strategy = get_default_strategy
      in case date_add_days (today ev) rental_days of
           Inl err \<Rightarrow> Inl err
         | Inr estimated_end \<Rightarrow>
             (let rental_cost = calculate_price ev strategy c (today ev) estimated_end
              in Inr (rental_cost * (3 / 10))))"

text \<open>
  \<open>create_rental\<close> is the body under \<open>@transaction.atomic\<close>. The body returns its
  outcome and the store as it left it, so that a failure shows what had been written when
  it was raised. The locals \<open>total_cost\<close>, \<open>daily_cost\<close>, \<open>deposit\<close> and
  \<open>rental_status\<close> of the source are \<open>cost\<close>, \<open>per_day\<close>, \<open>dep\<close> and \<open>st\<close>
  here, the former being field names of the records. The returned rental refers to the
  car object that the last step has just marked as rented.
\<close>

definition create_rental_body ::
  "backend \<Rightarrow> env \<Rightarrow> nat \<Rightarrow> car \<Rightarrow> date \<Rightarrow> date \<Rightarrow> string \<Rightarrow> store
     \<Rightarrow> (error + rental) \<times> store" where
  "create_rental_body db ev cl c start_d end_d strategy_name s =
     (if \<not> is_available c then (Inl (ValueError CarNotAvailable), s)
      else if start_d < today ev then (Inl (ValueError StartDateInPast), s)
      else if end_d \<le> start_d then (Inl (ValueError EndDateNotAfterStart), s)
      else
        (let strategy = create_strategy strategy_name;
             cost = calculate_price ev strategy c start_d end_d;
             per_day = daily_price c;
             days = (end_d - start_d) + 1
         in case calculate_deposit ev c days of
              Inl err \<Rightarrow> (Inl err, s)
            | Inr dep \<Rightarrow>
                (let st = (if start_d \<le> today ev then Active else Pending)
                 in case Rental_objects_create db cl c start_d end_d dep per_day cost st s of
                      Inl err \<Rightarrow> (Inl err, s)
                    | Inr (r, s1) \<Rightarrow>
                        (case Payment_objects_create db r DepositPayment dep s1 of
                           Inl err \<Rightarrow> (Inl err, s1)
                         | Inr s2 \<Rightarrow>
                             (let c' = c\<lparr>car_status := Rented\<rparr>
                              in case save_car db c' s2 of
                                   Inl err \<Rightarrow> (Inl err, s2)
                                 | Inr s3 \<Rightarrow> (Inr (r\<lparr>car := c'\<rparr>), s3))))))"

definition create_rental ::
  "backend \<Rightarrow> env \<Rightarrow> nat \<Rightarrow> car \<Rightarrow> date \<Rightarrow> date \<Rightarrow> string \<Rightarrow> store
     \<Rightarrow> (error + rental) \<times> store" where
  "create_rental db ev cl c start_d end_d strategy_name =
     atomic (create_rental_body db ev cl c start_d end_d strategy_name)"

definition validate_rental_dates :: "env \<Rightarrow> date \<Rightarrow> date \<Rightarrow> bool \<times> message" where
  "validate_rental_dates ev start_d end_d =
     (let max_rental_days = 365 in
      if start_d < today ev then (False, StartDateInPast)
      else if end_d \<le> start_d then (False, EndDateNotAfterStart)
      else
        (let rental_days = end_d - start_d in
         if rental_days > max_rental_days then (False, MaxDuration max_rental_days)
         else if rental_days < 1 then (False, MinDuration)
         else (True, NoMessage)))"

section \<open>Rental service\<close>

text \<open>
  \<open>Rental.objects.filter(...)\<close> is a lazy query: \<open>count()\<close> and
  \<open>update(...)\<close> each run it on the store as it is at that moment. \<open>update\<close>
  sets the status of every row the query selects.
\<close>

definition pending_to_active :: "env \<Rightarrow> rental \<Rightarrow> bool" where
  "pending_to_active ev r = (rental_status r = Pending \<and> start_date r \<le> today ev)"

definition overdue_rentals :: "env \<Rightarrow> rental \<Rightarrow> bool" where
  "overdue_rentals ev r = (rental_status r = Active \<and> expected_end_date r < today ev)"

definition queryset_count :: "(rental \<Rightarrow> bool) \<Rightarrow> store \<Rightarrow> nat" where
  "queryset_count q s = length (filter q (rentals s))"

definition queryset_update_status :: "(rental \<Rightarrow> bool) \<Rightarrow> rental_state \<Rightarrow> store \<Rightarrow> store" where
  "queryset_update_status q st s =
     s\<lparr>rentals := map (\<lambda>r. if q r then r\<lparr>rental_status := st\<rparr> else r) (rentals s)\<rparr>"

definition update_overdue_rentals :: "env \<Rightarrow> store \<Rightarrow> nat \<times> store" where
  "update_overdue_rentals ev s =
     (let pending_count = queryset_count (pending_to_active ev) s;
          s1 = queryset_update_status (pending_to_active ev) Active s;
          overdue_count = queryset_count (overdue_rentals ev) s1;
          s2 = queryset_update_status (overdue_rentals ev) Overdue s1
      in (pending_count + overdue_count, s2))"

text \<open>The same two bulk transitions in the opposite order, (b) before (a). This is not
  code of the repository: it is the comparison the specification makes when it says that
  the order of the two transitions is immaterial.\<close>

definition update_overdue_rentals_b_first :: "env \<Rightarrow> store \<Rightarrow> nat \<times> store" where
  "update_overdue_rentals_b_first ev s =
     (let overdue_count = queryset_count (overdue_rentals ev) s;
          s1 = queryset_update_status (overdue_rentals ev) Overdue s;
          pending_count = queryset_count (pending_to_active ev) s1;
          s2 = queryset_update_status (pending_to_active ev) Active s1
      in (pending_count + overdue_count, s2))"

text \<open>A rental that both transitions of one sweep reach: pending, already started, and
  already past its expected end.\<close>

definition stale_pending :: "env \<Rightarrow> rental \<Rightarrow> bool" where
  "stale_pending ev r =
     (rental_status r = Pending \<and> start_date r \<le> today ev \<and> expected_end_date r < today ev)"

definition create_fine_records ::
  "backend \<Rightarrow> rental \<Rightarrow> int \<Rightarrow> int \<Rightarrow> store \<Rightarrow> (error + unit) \<times> store" where
  "create_fine_records db r level days s =
     (case (if level > 0
            then (case calculate_damage_fine r level of
                    Inl err \<Rightarrow> (Inl err, s)
                  | Inr damage_fine \<Rightarrow>
                      (case Fine_objects_create db r (DamageOfLevel level) damage_fine s of
                         Inl err \<Rightarrow> (Inl err, s)
                       | Inr s' \<Rightarrow> (Inr (), s')))
            else (Inr (), s)) of
        (Inl err, s1) \<Rightarrow> (Inl err, s1)
      | (Inr _, s1) \<Rightarrow>
          (if days > 0
           then (let late_fine = calculate_late_fine r days
                 in case Fine_objects_create db r (LateByDays days) late_fine s1 of
                      Inl err \<Rightarrow> (Inl err, s1)
                    | Inr s' \<Rightarrow> (Inr (), s'))
           else (Inr (), s1)))"

text \<open>\<open>rental.total_cost += total_fines\<close> is a sum in the decimal context.\<close>

definition complete_rental_body ::
  "backend \<Rightarrow> env \<Rightarrow> rental \<Rightarrow> date \<Rightarrow> int \<Rightarrow> int \<Rightarrow> store
     \<Rightarrow> (error + rental \<times> decimal \<times> decimal) \<times> store" where
  "complete_rental_body db ev r actual_end level days s =
     (case calculate_total_fines r level days of
        Inl err \<Rightarrow> (Inl err, s)
      | Inr total_fines \<Rightarrow>
          (let refund = calculate_refund r total_fines;
               r1 = r\<lparr>actual_end_date := Some actual_end, damage_level := level,
                       late_days := days, rental_status := Completed\<rparr>;
               strategy = get_default_strategy;
               r2 = r1\<lparr>total_cost :=
                         calculate_price ev strategy (car r1) (start_date r1) actual_end\<rparr>;
               r3 = r2\<lparr>total_cost := round_ctx (total_cost r2 + total_fines)\<rparr>
           in case save_rental db r3 s of
                Inl err \<Rightarrow> (Inl err, s)
              | Inr s1 \<Rightarrow>
                  (case create_fine_records db r3 level days s1 of
                     (Inl err, s2) \<Rightarrow> (Inl err, s2)
                   | (Inr _, s2) \<Rightarrow>
                       (case (if refund > 0
                              then Payment_objects_create db r3 RefundPayment refund s2
                              else Inr s2) of
                          Inl err \<Rightarrow> (Inl err, s2)
                        | Inr s3 \<Rightarrow>
                            (let r4 = r3\<lparr>car := (car r3)\<lparr>car_status := Available\<rparr>\<rparr>
                             in case save_car db (car r4) s3 of
                                  Inl err \<Rightarrow> (Inl err, s3)
                                | Inr s4 \<Rightarrow> (Inr (r4, total_fines, refund), s4))))))"

definition complete_rental ::
  "backend \<Rightarrow> env \<Rightarrow> rental \<Rightarrow> date \<Rightarrow> int \<Rightarrow> int \<Rightarrow> store
     \<Rightarrow> (error + rental \<times> decimal \<times> decimal) \<times> store" where
  "complete_rental db ev r actual_end level days =
     atomic (complete_rental_body db ev r actual_end level days)"

section \<open>Descriptions used to state the properties\<close>

text \<open>None of the following is code of the repository. \<open>sweep_row\<close> is the status
  one sweep leaves a single rental with, \<open>complete_rental_taken\<close> says that the backend
  takes every value a completion writes; the rest are concrete inputs.\<close>

definition complete_rental_taken ::
  "backend \<Rightarrow> env \<Rightarrow> rental \<Rightarrow> date \<Rightarrow> int \<Rightarrow> int \<Rightarrow> bool" where
  "complete_rental_taken db ev r actual_end level days =
     (case calculate_total_fines r level days of
        Inl _ \<Rightarrow> False
      | Inr tf \<Rightarrow>
          rental_fits db
            (r\<lparr>damage_level := level, late_days := days,
               total_cost :=
                 round_ctx (calculate_price ev get_default_strategy (car r) (start_date r)
                              actual_end + tf)\<rparr>)
          \<and> (0 < level \<longrightarrow>
               (case calculate_damage_fine r level of
                  Inl _ \<Rightarrow> False
                | Inr damage_fine \<Rightarrow> takes_amount db (two_places damage_fine)))
          \<and> (0 < days \<longrightarrow> takes_amount db (two_places (calculate_late_fine r days)))
          \<and> (0 < calculate_refund r tf \<longrightarrow>
               takes_amount db (two_places (calculate_refund r tf)))
          \<and> car_fits db (car r))"

text \<open>A backend that refuses what does not fit: amounts of more than 10 digits and
  integers of more than 32 bits.\<close>

definition example_backend :: backend where
  "example_backend =
     \<lparr>takes_amount = (\<lambda>x. \<bar>x\<bar> < 10 ^ 8),
      takes_integer = (\<lambda>n. - (2 ^ 31) \<le> n \<and> n < 2 ^ 31)\<rparr>"

definition sweep_row :: "env \<Rightarrow> rental \<Rightarrow> rental" where
  "sweep_row ev r =
     (if pending_to_active ev r
      then r\<lparr>rental_status := (if expected_end_date r < today ev then Overdue else Active)\<rparr>
      else if overdue_rentals ev r then r\<lparr>rental_status := Overdue\<rparr>
      else r)"

text \<open>Day 739923 is 2026-11-03.\<close>

definition example_env :: env where
  "example_env = \<lparr>today = 739923, current_year = 2026\<rparr>"

definition example_car :: car where
  "example_car = \<lparr>car_id = 1, year = 2026, daily_price = 1000, car_status = Available\<rparr>"

definition example_rental :: rental where
  "example_rental =
     \<lparr>rental_id = 1, client = 1, car = example_car\<lparr>car_status := Rented\<rparr>,
      start_date = 739923, expected_end_date = 739932, actual_end_date = None,
      deposit = 3000, daily_cost = 1000, total_cost = 11400, rental_status = Active,
      damage_level = 0, late_days = 0\<rparr>"

text \<open>The same rental with a deposit that has cents.\<close>

definition cents_rental :: rental where
  "cents_rental = example_rental\<lparr>deposit := 10001 / 100\<rparr>"

definition empty_store :: store where
  "empty_store = \<lparr>cars = Map.empty, rentals = [], fines = [], payments = []\<rparr>"

text \<open>The store that holds the row of \<open>example_rental\<close>.\<close>

definition booked_store :: store where
  "booked_store = empty_store\<lparr>rentals := [example_rental]\<rparr>"

text \<open>One rental that was booked for a future window and never swept until the window
  had passed.\<close>

definition stale_store :: store where
  "stale_store =
     empty_store\<lparr>rentals :=
       [example_rental\<lparr>start_date := 739900, expected_end_date := 739910,
                       rental_status := Pending\<rparr>]\<rparr>"

text \<open>A pending rental that starts today and a second, active one past its end.\<close>

definition fresh_store :: store where
  "fresh_store =
     empty_store\<lparr>rentals :=
       [example_rental\<lparr>start_date := 739923, expected_end_date := 739930,
                       rental_status := Pending\<rparr>,
        example_rental\<lparr>rental_id := 2, start_date := 739900, expected_end_date := 739910\<rparr>]\<rparr>"

section \<open>Pricing: the combined strategy\<close>

lemma get_default_strategy_combined: "get_default_strategy = CombinedPricingStrategy"
  by (simp add: get_default_strategy_def create_strategy_def STRATEGIES_def)

text \<open>
  Claim C1. The default strategy is the combined one, and for every car with daily price
  \<open>p\<close> and year \<open>y\<close> and all dates \<open>s\<close>, \<open>e\<close> (in particular those with
  \<open>e > s\<close>) its price is \<open>p * d * m * (1 - disc)\<close>, where \<open>d = (e - s).days + 1\<close>,
  \<open>m\<close> is 1.2, 1.0, 0.9 or 0.8 as the age \<open>current_year - y\<close> is at most 2, at most 5,
  at most 10 or larger, and \<open>disc\<close> is 0.15, 0.10, 0.05 or 0 as \<open>d\<close> is at least 30, at
  least 14, at least 7 or smaller. It is the standard price times the year multiplier times
  one minus the duration discount.
\<close>

theorem combined_price_formula:
  "calculate_price ev get_default_strategy c s e =
     daily_price c * of_int (e - s + 1)
       * (if current_year ev - year c \<le> 2 then 12 / 10
          else if current_year ev - year c \<le> 5 then 1
          else if current_year ev - year c \<le> 10 then 9 / 10 else 8 / 10)
       * (1 - (if e - s + 1 \<ge> 30 then 15 / 100
               else if e - s + 1 \<ge> 14 then 10 / 100
               else if e - s + 1 \<ge> 7 then 5 / 100 else 0))
   \<and> calculate_price ev CombinedPricingStrategy c s e =
       calculate_price ev StandardPricingStrategy c s e
         * calculate_year_multiplier (current_year ev - year c)
         * (1 - calculate_duration_discount (e - s + 1))
   \<and> get_default_strategy = CombinedPricingStrategy"
  unfolding get_default_strategy_combined
  by (simp add: combined_calculate_price_def standard_calculate_price_def
      calculate_year_multiplier_def calculate_duration_discount_def Let_def)

text \<open>The bracket boundaries: ages 2, 3, 5, 6, 10, 11 paired with 6, 7, 13, 14, 29 and 30
  days, for a car of 1000 a day in 2026.\<close>

theorem combined_price_formula_witness:
  "calculate_price \<lparr>today = 100, current_year = 2026\<rparr> get_default_strategy
     \<lparr>car_id = 1, year = 2024, daily_price = 1000, car_status = Available\<rparr> 100 105 = 7200
   \<and> calculate_price \<lparr>today = 100, current_year = 2026\<rparr> get_default_strategy
     \<lparr>car_id = 1, year = 2023, daily_price = 1000, car_status = Available\<rparr> 100 106 = 6650
   \<and> calculate_price \<lparr>today = 100, current_year = 2026\<rparr> get_default_strategy
     \<lparr>car_id = 1, year = 2021, daily_price = 1000, car_status = Available\<rparr> 100 112 = 12350
   \<and> calculate_price \<lparr>today = 100, current_year = 2026\<rparr> get_default_strategy
     \<lparr>car_id = 1, year = 2020, daily_price = 1000, car_status = Available\<rparr> 100 113 = 11340
   \<and> calculate_price \<lparr>today = 100, current_year = 2026\<rparr> get_default_strategy
     \<lparr>car_id = 1, year = 2016, daily_price = 1000, car_status = Available\<rparr> 100 128 = 23490
   \<and> calculate_price \<lparr>today = 100, current_year = 2026\<rparr> get_default_strategy
     \<lparr>car_id = 1, year = 2015, daily_price = 1000, car_status = Available\<rparr> 100 129 = 20400"
  by (simp add: combined_price_formula [THEN conjunct1])


section \<open>Rounding in the decimal context\<close>

lemma round_half_even_int: "round_half_even (of_int n) = n"
  by (simp add: round_half_even_def)

text \<open>A decimal with a coefficient of at most 28 digits is not changed by the
  rounding of the context.\<close>

lemma round_ctx_exact:
  "x = of_int m / 10 ^ k \<Longrightarrow> \<bar>m\<bar> < 10 ^ 28 \<Longrightarrow> round_ctx x = x"
proof (induction x arbitrary: m k rule: round_ctx.induct)
  case (1 x)
  show ?case
  proof (cases "x = 0")
    case True
    then show ?thesis by (subst round_ctx.simps) simp
  next
    case nz: False
    have xm: "\<bar>x\<bar> \<le> of_int \<bar>m\<bar>"
    proof -
      have "\<bar>x\<bar> = of_int \<bar>m\<bar> / 10 ^ k" using "1.prems"(1) by (simp add: abs_divide)
      also have "\<dots> \<le> of_int \<bar>m\<bar> / 1"
        by (rule divide_left_mono) simp_all
      finally show ?thesis by simp
    qed
    have mb: "of_int \<bar>m\<bar> < (10::rat) ^ 28"
      using "1.prems"(2) by (metis of_int_less_iff of_int_numeral of_int_power)
    with xm have nb: "\<not> 10 ^ 28 \<le> \<bar>x\<bar>" by simp
    show ?thesis
    proof (cases "\<bar>x\<bar> < 10 ^ 27")
      case small: True
      have "round_ctx (10 * x) = 10 * x"
      proof (cases k)
        case 0
        then have xi: "x = of_int m" using "1.prems"(1) by simp
        then have "\<bar>of_int m :: rat\<bar> < 10 ^ 27" using small by simp
        then have "\<bar>m\<bar> < 10 ^ 27"
          by (metis of_int_abs of_int_less_iff of_int_numeral of_int_power)
        then have "\<bar>10 * m\<bar> < 10 ^ 28" by simp
        moreover have "10 * x = of_int (10 * m) / 10 ^ 0" using xi by simp
        ultimately show ?thesis using "1.IH"(2) [OF nz nb small] by blast
      next
        case (Suc j)
        then have "10 * x = of_int m / 10 ^ j" using "1.prems"(1) by simp
        then show ?thesis using "1.IH"(2) [OF nz nb small] "1.prems"(2) by blast
      qed
      then show ?thesis using nz nb small by (subst round_ctx.simps) simp
    next
      case mid: False
      have "k = 0"
      proof (rule ccontr)
        assume "k \<noteq> 0"
        then have k10: "(10::rat) \<le> 10 ^ k" by (cases k) (simp_all add: self_le_power)
        have "of_int \<bar>m\<bar> = \<bar>x\<bar> * 10 ^ k" using "1.prems"(1) by (simp add: abs_divide)
        also have "\<dots> \<ge> 10 ^ 27 * 10"
          using mid k10 by (intro mult_mono) simp_all
        finally have "(10::rat) ^ 28 \<le> of_int \<bar>m\<bar>" by simp
        with mb show False by simp
      qed
      then have "x = of_int m" using "1.prems"(1) by simp
      then show ?thesis using nz nb mid
        by (subst round_ctx.simps) (simp add: round_half_even_int)
    qed
  qed
qed

lemma round_ctx_0: "round_ctx 0 = 0"
  by (subst round_ctx.simps) simp

lemma round_ctx_of_int: "\<bar>n\<bar> < 10 ^ 28 \<Longrightarrow> round_ctx (of_int n) = of_int n"
  using round_ctx_exact [of "of_int n" n 0] by simp


section \<open>Fines\<close>

lemma damage_fine_total:
  "calculate_damage_fine r level =
     Inr (round_ctx (deposit r * (if level = 1 then 1 / 10 else if level = 2 then 3 / 10
                                  else if level = 3 then 5 / 10 else 0)))"
  by (simp add: calculate_damage_fine_def DAMAGE_MULTIPLIERS_def Let_def)

lemma late_fine_total:
  "calculate_late_fine r days = round_ctx (if 0 < days then of_int days * 500 else 0)"
  by (simp add: calculate_late_fine_def LATE_FINE_PER_DAY_def round_ctx_0 mult.commute)

lemma total_fines_total:
  "calculate_total_fines r level days =
     Inr (round_ctx
            (round_ctx (deposit r * (if level = 1 then 1 / 10 else if level = 2 then 3 / 10
                                     else if level = 3 then 5 / 10 else 0))
             + round_ctx (if 0 < days then of_int days * 500 else 0)))"
  by (simp add: calculate_total_fines_def damage_fine_total late_fine_total Let_def)

text \<open>For a deposit of at most 7 decimals below \<open>10^19\<close> and late days of 32 bits,
  the products and the sum of the fine calculator have at most 28 digits.\<close>

lemma fines_exact:
  assumes d: "deposit r * 10 ^ 7 \<in> \<int>" and db: "\<bar>deposit r\<bar> < 10 ^ 19"
    and n: "\<bar>days\<bar> < 2 ^ 31" and j: "j \<in> {0, 1, 3, 5}"
  shows "round_ctx (deposit r * (of_int j / 10)) = deposit r * (of_int j / 10)"
    and "round_ctx (of_int days * 500) = of_int days * 500"
    and "round_ctx (deposit r * (of_int j / 10) + of_int days * 500)
           = deposit r * (of_int j / 10) + of_int days * 500"
proof -
  from d obtain m where m: "deposit r * 10 ^ 7 = of_int m" by (auto elim: Ints_cases)
  then have dm: "deposit r = of_int m / 10 ^ 7" by (simp add: field_simps)
  have "\<bar>of_int m :: rat\<bar> < 10 ^ 19 * 10 ^ 7"
    using db m [symmetric] by (simp add: abs_mult)
  then have "\<bar>of_int m :: rat\<bar> < 10 ^ 26" by simp
  then have mb: "\<bar>m\<bar> < 10 ^ 26"
    by (metis of_int_abs of_int_less_iff of_int_numeral of_int_power)
  have jb: "0 \<le> j" "j \<le> 5" using j by auto
  have "\<bar>m * j\<bar> \<le> \<bar>m\<bar> * 5" using jb by (simp add: abs_mult mult_left_mono)
  with mb have mj: "\<bar>m * j\<bar> < 5 * 10 ^ 26" by simp
  have p: "deposit r * (of_int j / 10) = of_int (m * j) / 10 ^ 8"
    by (simp add: dm)
  show "round_ctx (deposit r * (of_int j / 10)) = deposit r * (of_int j / 10)"
    using round_ctx_exact [OF p] mj by simp
  have nb: "\<bar>days * 500\<bar> < 500 * 2 ^ 31" using n by (simp add: abs_mult)
  show "round_ctx (of_int days * 500) = of_int days * 500"
    using round_ctx_of_int [of "days * 500"] nb by simp
  have s: "deposit r * (of_int j / 10) + of_int days * 500
             = of_int (m * j + days * 50000000000) / 10 ^ 8"
    by (simp add: dm field_simps)
  have "\<bar>days * 50000000000\<bar> < 50000000000 * 2 ^ 31" using n by (simp add: abs_mult)
  with mj have "\<bar>m * j + days * 50000000000\<bar> < 10 ^ 28" by simp
  from round_ctx_exact [OF s this]
  show "round_ctx (deposit r * (of_int j / 10) + of_int days * 500)
           = deposit r * (of_int j / 10) + of_int days * 500" .
qed

text \<open>
  Claim C6, amended. For every rental with deposit \<open>D\<close> and all integers \<open>level\<close> and
  \<open>days\<close>, \<open>calculate_total_fines\<close> returns (it raises nothing) the damage fine
  \<open>D * M level\<close> plus the late fine \<open>L days\<close>, each of the two products and their
  sum rounded to the 28 significant digits of the decimal context; \<open>M\<close> is 0, 0.1, 0.3,
  0.5 at the levels 0, 1, 2, 3 and 0 at every other level, and \<open>L days\<close> is
  \<open>days * 500\<close> for positive \<open>days\<close> and 0 otherwise. When the deposit has at most 7
  decimals and is below \<open>10^19\<close> in magnitude (every deposit a column holds and every
  deposit \<open>create_rental\<close> computes) and \<open>days\<close> fits 32 bits, nothing is rounded: the
  total is exactly \<open>D * M level + L days\<close>, the sum of \<open>calculate_damage_fine\<close> and
  \<open>calculate_late_fine\<close>.
\<close>

theorem total_fines_formula:
  "calculate_total_fines r level days =
     Inr (round_ctx
            (round_ctx (deposit r * (if level = 0 then 0 else if level = 1 then 1 / 10
                                     else if level = 2 then 3 / 10
                                     else if level = 3 then 5 / 10 else 0))
             + round_ctx (if days > 0 then of_int days * 500 else 0)))
   \<and> (deposit r * 10 ^ 7 \<in> \<int> \<and> \<bar>deposit r\<bar> < 10 ^ 19 \<and> \<bar>days\<bar> < 2 ^ 31 \<longrightarrow>
        calculate_total_fines r level days =
          Inr (deposit r * (if level = 0 then 0 else if level = 1 then 1 / 10
                            else if level = 2 then 3 / 10
                            else if level = 3 then 5 / 10 else 0)
               + (if days > 0 then of_int days * 500 else 0))
        \<and> calculate_damage_fine r level =
            Inr (deposit r * (if level = 0 then 0 else if level = 1 then 1 / 10
                              else if level = 2 then 3 / 10
                              else if level = 3 then 5 / 10 else 0))
        \<and> calculate_late_fine r days = (if days > 0 then of_int days * 500 else 0))"
proof -
  define j :: int where
    "j = (if level = 1 then 1 else if level = 2 then 3 else if level = 3 then 5 else 0)"
  have j: "j \<in> {0, 1, 3, 5}" by (simp add: j_def)
  have mj: "(if level = 0 then 0 else if level = 1 then 1 / 10
             else if level = 2 then 3 / 10
             else if level = 3 then 5 / 10 else (0::rat)) = of_int j / 10"
    by (simp add: j_def)
  have mj': "(if level = 1 then 1 / 10 else if level = 2 then 3 / 10
              else if level = 3 then 5 / 10 else (0::rat)) = of_int j / 10"
    by (simp add: j_def)
  have gen: "calculate_total_fines r level days =
     Inr (round_ctx (round_ctx (deposit r * (of_int j / 10))
                     + round_ctx (if days > 0 then of_int days * 500 else 0)))"
    unfolding total_fines_total mj' ..
  have exact:
    "calculate_total_fines r level days =
       Inr (deposit r * (of_int j / 10) + (if days > 0 then of_int days * 500 else 0))
     \<and> calculate_damage_fine r level = Inr (deposit r * (of_int j / 10))
     \<and> calculate_late_fine r days = (if days > 0 then of_int days * 500 else 0)"
    if h: "deposit r * 10 ^ 7 \<in> \<int> \<and> \<bar>deposit r\<bar> < 10 ^ 19 \<and> \<bar>days\<bar> < 2 ^ 31"
  proof -
    from h have h1: "deposit r * 10 ^ 7 \<in> \<int>" and h2: "\<bar>deposit r\<bar> < 10 ^ 19"
      and h3: "\<bar>days\<bar> < 2 ^ 31" by simp_all
    note e = fines_exact [OF h1 h2 h3 j]
    have damage: "calculate_damage_fine r level = Inr (deposit r * (of_int j / 10))"
      unfolding damage_fine_total mj' e(1) ..
    have late: "calculate_late_fine r days = (if days > 0 then of_int days * 500 else 0)"
    proof (cases "0 < days")
      case True
      then show ?thesis unfolding late_fine_total by (simp only: e if_True)
    next
      case False
      then show ?thesis unfolding late_fine_total by (simp only: round_ctx_0 if_False)
    qed
    have total: "calculate_total_fines r level days =
          Inr (deposit r * (of_int j / 10) + (if days > 0 then of_int days * 500 else 0))"
    proof (cases "0 < days")
      case True
      then show ?thesis
        unfolding gen by (simp only: e if_True)
    next
      case False
      then show ?thesis
        unfolding gen by (simp only: e round_ctx_0 if_False add_0_right)
    qed
    from total damage late show ?thesis by blast
  qed
  show ?thesis
    unfolding mj using gen exact by blast
qed


text \<open>
  Claim C6, as stated for all integers, fails: with deposit 3000, damage level 2 and
  \<open>10^30\<close> late days the late fine is \<open>5 * 10^32\<close>, and the sum with the damage
  fine 900 is rounded to 28 digits, which drops the 900.
\<close>

theorem total_fines_rounding_counterexample:
  "calculate_total_fines example_rental 2 (10 ^ 30) = Inr (5 * 10 ^ 32)
   \<and> deposit example_rental * (3 / 10) + of_int (10 ^ 30) * 500 = 5 * 10 ^ 32 + 900"
proof -
  have a: "round_ctx 900 = 900" by code_simp
  have b: "round_ctx 500000000000000000000000000000000 = 500000000000000000000000000000000"
    by code_simp
  have c: "round_ctx 500000000000000000000000000000900 = 500000000000000000000000000000000"
    by code_simp
  have d: "deposit example_rental = 3000" by (simp add: example_rental_def)
  have "calculate_total_fines example_rental 2 (10 ^ 30) = Inr (5 * 10 ^ 32)"
    unfolding total_fines_total d by (simp add: a b c)
  then show ?thesis by (simp add: d)
qed

theorem total_fines_formula_witness:
  "calculate_total_fines example_rental 2 3 = Inr 2400
   \<and> calculate_total_fines example_rental 7 (- 1) = Inr 0"
proof -
  have d: "deposit example_rental = 3000" by (simp add: example_rental_def)
  have h: "deposit example_rental * 10 ^ 7 \<in> \<int>" "\<bar>deposit example_rental\<bar> < 10 ^ 19"
    by (simp_all add: d)
  have "calculate_total_fines example_rental 2 3 = Inr 2400"
    using total_fines_formula [of example_rental 2 3, THEN conjunct2] h by (simp add: d)
  moreover have "calculate_total_fines example_rental 7 (- 1) = Inr 0"
    using total_fines_formula [of example_rental 7 "- 1", THEN conjunct2] h by (simp add: d)
  ultimately show ?thesis by blast
qed

section \<open>Refund\<close>




section \<open>Date validation\<close>

text \<open>
  Claim C9. For all dates, \<open>validate_rental_dates\<close> returns \<open>(True, "")\<close> if and only
  if the start is not before today, the end is after the start, and the duration
  \<open>(end - start).days\<close> is at most 365 and at least 1. In every other case it returns
  \<open>False\<close> with the message of the first check that fails. It takes no store and returns
  none: it writes nothing.
\<close>

theorem validate_rental_dates_iff:
  "(validate_rental_dates ev s e = (True, NoMessage)
      \<longleftrightarrow> today ev \<le> s \<and> s < e \<and> e - s \<le> 365 \<and> 1 \<le> e - s)
   \<and> validate_rental_dates ev s e =
       (if s < today ev then (False, StartDateInPast)
        else if e \<le> s then (False, EndDateNotAfterStart)
        else if e - s > 365 then (False, MaxDuration 365)
        else (True, NoMessage))"
  by (auto simp add: validate_rental_dates_def Let_def)

theorem validate_rental_dates_iff_witness:
  "validate_rental_dates \<lparr>today = 100, current_year = 2026\<rparr> 100 465 = (True, NoMessage)
   \<and> validate_rental_dates \<lparr>today = 100, current_year = 2026\<rparr> 100 466 \<noteq> (True, NoMessage)"
  using validate_rental_dates_iff [of "\<lparr>today = 100, current_year = 2026\<rparr>" 100 465]
        validate_rental_dates_iff [of "\<lparr>today = 100, current_year = 2026\<rparr>" 100 466]
  by simp


section \<open>The status sweep\<close>

lemma sweep_rentals:
  "rentals (snd (update_overdue_rentals ev s)) = map (sweep_row ev) (rentals s)"
  by (auto simp add: update_overdue_rentals_def queryset_update_status_def Let_def
      sweep_row_def pending_to_active_def overdue_rentals_def)

lemma sweep_count:
  "fst (update_overdue_rentals ev s) =
     length (filter (pending_to_active ev) (rentals s))
     + length (filter (\<lambda>r. overdue_rentals ev r \<or> stale_pending ev r) (rentals s))"
proof -
  have "filter (overdue_rentals ev)
          (map (\<lambda>r. if pending_to_active ev r then r\<lparr>rental_status := Active\<rparr> else r) rs)
        = map (\<lambda>r. if pending_to_active ev r then r\<lparr>rental_status := Active\<rparr> else r)
            (filter (\<lambda>r. overdue_rentals ev r \<or> stale_pending ev r) rs)" for rs
    by (induction rs)
       (auto simp add: pending_to_active_def overdue_rentals_def stale_pending_def)
  then show ?thesis
    by (simp add: update_overdue_rentals_def queryset_update_status_def queryset_count_def
        Let_def)
qed

lemma sweep_row_settled:
  "\<not> pending_to_active ev (sweep_row ev r)" "\<not> overdue_rentals ev (sweep_row ev r)"
  by (auto simp add: sweep_row_def pending_to_active_def overdue_rentals_def)

lemma sweep_row_not_stale: "\<not> stale_pending ev (sweep_row ev r)"
  using sweep_row_settled(1) [of ev r]
  by (auto simp add: stale_pending_def pending_to_active_def)

lemma sweep_unchanged_parts:
  "cars (snd (update_overdue_rentals ev s)) = cars s"
  "fines (snd (update_overdue_rentals ev s)) = fines s"
  "payments (snd (update_overdue_rentals ev s)) = payments s"
  by (simp_all add: update_overdue_rentals_def queryset_update_status_def Let_def)

lemma b_first_rentals:
  "rentals (snd (update_overdue_rentals_b_first ev s)) =
     map (\<lambda>r. if pending_to_active ev r then r\<lparr>rental_status := Active\<rparr>
               else if overdue_rentals ev r then r\<lparr>rental_status := Overdue\<rparr> else r)
       (rentals s)"
  by (auto simp add: update_overdue_rentals_b_first_def queryset_update_status_def Let_def
      pending_to_active_def overdue_rentals_def)

lemma b_first_count:
  "fst (update_overdue_rentals_b_first ev s) =
     length (filter (pending_to_active ev) (rentals s))
     + length (filter (overdue_rentals ev) (rentals s))"
proof -
  have "filter (pending_to_active ev)
          (map (\<lambda>r. if overdue_rentals ev r then r\<lparr>rental_status := Overdue\<rparr> else r) rs)
        = filter (pending_to_active ev) rs" for rs
    by (induction rs) (auto simp add: pending_to_active_def overdue_rentals_def)
  then show ?thesis
    by (simp add: update_overdue_rentals_b_first_def queryset_update_status_def
        queryset_count_def Let_def)
qed

lemma b_first_same:
  assumes "\<forall>r \<in> set (rentals s). \<not> stale_pending ev r"
  shows "update_overdue_rentals_b_first ev s = update_overdue_rentals ev s"
proof -
  have c: "fst (update_overdue_rentals_b_first ev s) = fst (update_overdue_rentals ev s)"
    using assms unfolding b_first_count sweep_count
    by (metis (mono_tags, lifting) filter_cong)
  have "\<forall>r \<in> set (rentals s). sweep_row ev r =
          (if pending_to_active ev r then r\<lparr>rental_status := Active\<rparr>
           else if overdue_rentals ev r then r\<lparr>rental_status := Overdue\<rparr> else r)"
    using assms by (auto simp add: sweep_row_def stale_pending_def pending_to_active_def)
  then have r: "rentals (snd (update_overdue_rentals_b_first ev s))
      = rentals (snd (update_overdue_rentals ev s))"
    unfolding b_first_rentals sweep_rentals by simp
  have "snd (update_overdue_rentals_b_first ev s) = snd (update_overdue_rentals ev s)"
    using r
    by (simp add: update_overdue_rentals_b_first_def update_overdue_rentals_def
        queryset_update_status_def Let_def)
  with c show ?thesis by (simp add: prod_eq_iff)
qed

text \<open>
  Claim C5, as stated, fails: the two transitions are not independent. On a store whose
  only rental is pending, has started and is past its expected end, one sweep transitions
  that single rental twice (to active, then to overdue) and returns 2; with (b) before (a)
  the count is 1 and the rental ends active.
\<close>

theorem update_overdue_rentals_order_counterexample:
  "length (rentals stale_store) = 1
   \<and> fst (update_overdue_rentals example_env stale_store) = 2
   \<and> map rental_status (rentals (snd (update_overdue_rentals example_env stale_store)))
       = [Overdue]
   \<and> fst (update_overdue_rentals_b_first example_env stale_store) = 1
   \<and> map rental_status (rentals (snd (update_overdue_rentals_b_first example_env stale_store)))
       = [Active]"
  by (simp add: sweep_count sweep_rentals b_first_count b_first_rentals sweep_row_def
      stale_store_def empty_store_def example_rental_def example_env_def
      pending_to_active_def overdue_rentals_def stale_pending_def)

text \<open>
  Claim C5, amended. The sweep performs the two bulk transitions in sequence, (a) then (b)
  on the store that (a) left: a pending rental with \<open>start_date \<le> today\<close> becomes active,
  and overdue at once when also \<open>expected_end_date < today\<close>; an active rental with
  \<open>expected_end_date < today\<close> becomes overdue; every other rental is unchanged. The count
  is the number of rows (a) selected plus the number of rows (b) selected after (a), so a
  rental reached by both is counted twice. When no rental is pending, started and past its
  expected end, running (b) before (a) gives the same count and the same store.
\<close>

theorem update_overdue_rentals_sequential:
  "rentals (snd (update_overdue_rentals ev s)) = map (sweep_row ev) (rentals s)
   \<and> fst (update_overdue_rentals ev s) =
       length (filter (pending_to_active ev) (rentals s))
       + length (filter (\<lambda>r. overdue_rentals ev r \<or> stale_pending ev r) (rentals s))
   \<and> ((\<forall>r \<in> set (rentals s). \<not> stale_pending ev r)
        \<longrightarrow> update_overdue_rentals_b_first ev s = update_overdue_rentals ev s)"
  using sweep_rentals [of ev s] sweep_count [of ev s] b_first_same [of s ev]
  by blast

theorem update_overdue_rentals_sequential_witness:
  "filter (stale_pending example_env) (rentals fresh_store) = []
   \<and> update_overdue_rentals_b_first example_env fresh_store
       = update_overdue_rentals example_env fresh_store
   \<and> fst (update_overdue_rentals example_env fresh_store) = 2
   \<and> map rental_status (rentals (snd (update_overdue_rentals example_env fresh_store)))
       = [Active, Overdue]"
proof -
  have h: "\<forall>r \<in> set (rentals fresh_store). \<not> stale_pending example_env r"
    by (simp add: fresh_store_def empty_store_def example_rental_def example_env_def
        stale_pending_def)
  note t = update_overdue_rentals_sequential [of example_env fresh_store]
  from t h have "update_overdue_rentals_b_first example_env fresh_store
       = update_overdue_rentals example_env fresh_store"
    by blast
  moreover from t have "fst (update_overdue_rentals example_env fresh_store) = 2"
    by (simp add: fresh_store_def empty_store_def example_rental_def example_env_def
        pending_to_active_def overdue_rentals_def stale_pending_def)
  moreover from t
  have "map rental_status (rentals (snd (update_overdue_rentals example_env fresh_store)))
          = [Active, Overdue]"
    by (simp add: sweep_row_def fresh_store_def empty_store_def example_rental_def
        example_env_def pending_to_active_def overdue_rentals_def)
  moreover have "filter (stale_pending example_env) (rentals fresh_store) = []"
    using h by (simp add: filter_empty_conv)
  ultimately show ?thesis by blast
qed

text \<open>
  Claim C8. The sweep is idempotent: on every store and for every clock, a second sweep
  right after the first, with the same date, finds nothing to transition and returns 0.
\<close>

theorem update_overdue_rentals_idempotent:
  "fst (update_overdue_rentals ev (snd (update_overdue_rentals ev s))) = 0"
  by (simp add: sweep_count sweep_rentals filter_map o_def sweep_row_settled
      sweep_row_not_stale)

theorem update_overdue_rentals_idempotent_witness:
  "fst (update_overdue_rentals example_env stale_store) = 2
   \<and> fst (update_overdue_rentals example_env
             (snd (update_overdue_rentals example_env stale_store))) = 0"
  using update_overdue_rentals_idempotent [of example_env stale_store]
  by (simp add: sweep_count stale_store_def empty_store_def example_rental_def
      example_env_def pending_to_active_def overdue_rentals_def stale_pending_def)


section \<open>Deposit and creation of a rental\<close>

text \<open>When the estimated end is a date, the deposit is 30% of the combined price of the
  window from today to \<open>today + rental_days\<close>, which the strategy counts as
  \<open>rental_days + 1\<close> days.\<close>

lemma calculate_deposit_window:
  assumes "\<bar>n\<bar> \<le> 999999999" "date_min \<le> today ev + n" "today ev + n \<le> date_max"
  shows "calculate_deposit ev c n =
           Inr (daily_price c * of_int (n + 1)
                  * calculate_year_multiplier (current_year ev - year c)
                  * (1 - calculate_duration_discount (n + 1)) * (3 / 10))"
  using assms
  by (simp add: calculate_deposit_def date_add_days_def get_default_strategy_def
      create_strategy_def STRATEGIES_def combined_calculate_price_def Let_def)

text \<open>
  Claim C4 fails on the code. For a car of 1000 a day built this year, the deposit for 10
  rental days is 3762: 30% of the combined price of the window from today to today + 10,
  which is eleven days (1000 * 11 * 1.2 * 0.95 = 12540). 30% of the ten-day combined
  price (1000 * 10 * 1.2 * 0.95 = 11400), the price of the window from today to
  today + 9, is 3420.
\<close>

theorem calculate_deposit_ten_days:
  "calculate_deposit example_env example_car 10 = Inr 3762
   \<and> 3 / 10 * (daily_price example_car * 10 * calculate_year_multiplier 0
                  * (1 - calculate_duration_discount 10)) = 3420
   \<and> 3 / 10 * calculate_price example_env get_default_strategy example_car
                 (today example_env) (today example_env + 9) = 3420
   \<and> 3 / 10 * calculate_price example_env get_default_strategy example_car
                 (today example_env) (today example_env + 10) = 3762"
  by (simp add: calculate_deposit_def date_add_days_def get_default_strategy_def
      create_strategy_def STRATEGIES_def combined_calculate_price_def Let_def
      example_env_def example_car_def date_min_def date_max_def
      calculate_year_multiplier_def calculate_duration_discount_def)


end
